theory Spec2Isabelle
  imports Complex_Main
begin

section \<open>Python values and exceptions\<close>

text \<open>
  The exceptions the modelled methods can raise.  A method that can raise returns
  \<open>py_error + 'a\<close>, with \<open>Inl\<close> for the exception that escapes to the caller.
  \<open>IntegrityError\<close> is \<open>sqlite3.IntegrityError\<close>; its argument names the violated
  constraint of the schema created by \<open>DatabaseManager.init_database\<close>.
\<close>

datatype constraint_kind = NotNull string | Check string | Unique string

datatype py_error =
    KeyError string
  | TypeError
  | ValueError
  | AttributeError
  | IntegrityError constraint_kind
  | OperationalError

section \<open>Bank status mapping (automation/smart\_automation.py)\<close>

text \<open>
  \<open>str.lower()\<close> on the bytes of a string: the ASCII capitals are mapped to
  their lower-case letters and every other byte is kept.
\<close>

definition lower_char :: "char \<Rightarrow> char" where
  "lower_char c =
     (let n = (of_char c :: nat) in if 65 \<le> n \<and> n \<le> 90 then char_of (n + 32) else c)"

definition str_lower :: "string \<Rightarrow> string" where
  "str_lower s = map lower_char s"

text \<open>The dictionary literal \<open>status_mapping\<close> of \<open>_map_bank_status_to_internal\<close>.\<close>

definition status_mapping :: "(string \<times> string) list" where
  "status_mapping =
     [(''cleared'', ''encaisse''),
      (''bounced'', ''rejete''),
      (''returned'', ''rejete''),
      (''pending'', ''en_attente''),
      (''processing'', ''depose''),
      (''cancelled'', ''annule'')]"

text \<open>\<open>return status_mapping.get(bank_status.lower())\<close>\<close>

definition map_bank_status_to_internal :: "string \<Rightarrow> string option" where
  "map_bank_status_to_internal bank_status = map_of status_mapping (str_lower bank_status)"

text \<open>The six bank-side statuses the claim names, and the status enum of the
  \<open>cheques\<close> table (\<open>CHECK(status IN (...))\<close> in \<open>init_database\<close>).\<close>

definition bank_side_statuses :: "string list" where
  "bank_side_statuses =
     [''cleared'', ''bounced'', ''returned'', ''pending'', ''processing'', ''cancelled'']"

definition cheque_status_enum :: "string list" where
  "cheque_status_enum =
     [''en_attente'', ''encaisse'', ''rejete'', ''impaye'', ''depose'', ''annule'']"

section \<open>Role permissions (security/security\_manager.py)\<close>

datatype UserRole = ADMIN | MANAGER | EMPLOYEE | READONLY

text \<open>\<open>UserRole(user_role)\<close>: the enum member with that value, or \<open>ValueError\<close>.\<close>

definition UserRole_of_value :: "string \<Rightarrow> py_error + UserRole" where
  "UserRole_of_value v =
     (if v = ''admin'' then Inr ADMIN
      else if v = ''manager'' then Inr MANAGER
      else if v = ''employee'' then Inr EMPLOYEE
      else if v = ''readonly'' then Inr READONLY
      else Inl ValueError)"

text \<open>\<open>_load_role_permissions\<close>: the static role-to-permission table.\<close>

fun load_role_permissions :: "UserRole \<Rightarrow> string list option" where
  "load_role_permissions ADMIN = Some
     [''cheque.create'', ''cheque.read'', ''cheque.update'', ''cheque.delete'',
      ''client.create'', ''client.read'', ''client.update'', ''client.delete'',
      ''bank.create'', ''bank.read'', ''bank.update'', ''bank.delete'',
      ''user.create'', ''user.read'', ''user.update'', ''user.delete'',
      ''report.generate'', ''report.export'',
      ''system.backup'', ''system.restore'', ''system.configure'',
      ''audit.read'']"
| "load_role_permissions MANAGER = Some
     [''cheque.create'', ''cheque.read'', ''cheque.update'',
      ''client.create'', ''client.read'', ''client.update'',
      ''bank.read'',
      ''report.generate'', ''report.export'',
      ''system.backup'']"
| "load_role_permissions EMPLOYEE = Some
     [''cheque.create'', ''cheque.read'', ''cheque.update'',
      ''client.read'', ''client.update'',
      ''bank.read'',
      ''report.generate'']"
| "load_role_permissions READONLY = Some
     [''cheque.read'',
      ''client.read'',
      ''bank.read'',
      ''report.generate'']"

text \<open>
  \<open>check_user_permissions\<close>: only \<open>ValueError\<close> is caught (and answered with
  \<open>False\<close>); \<open>self.role_permissions.get(role_enum, [])\<close> falls back to the empty list.
\<close>

definition check_user_permissions :: "string \<Rightarrow> string \<Rightarrow> py_error + bool" where
  "check_user_permissions user_role required_permission =
     (case UserRole_of_value user_role of
        Inl e \<Rightarrow> (if e = ValueError then Inr False else Inl e)
      | Inr role_enum \<Rightarrow>
          (let permissions = (case load_role_permissions role_enum of None \<Rightarrow> [] | Some ps \<Rightarrow> ps)
           in Inr (required_permission \<in> set permissions)))"

text \<open>The roles the \<open>users\<close> table admits: \<open>CHECK(role IN ('admin', 'comptable',
  'agent', 'readonly'))\<close>.\<close>

definition users_role_check :: "string list" where
  "users_role_check = [''admin'', ''comptable'', ''agent'', ''readonly'']"

section \<open>Dates and numbers\<close>

text \<open>
  A \<open>datetime\<close> is a number of seconds since the epoch.  \<open>datetime.now()\<close> is an
  input \<open>now\<close> of the functions that read the clock, and
  \<open>datetime.strptime(s, '%Y-%m-%d %H:%M:%S')\<close> is an input \<open>strptime\<close>: \<open>None\<close> stands
  for the \<open>ValueError\<close> it raises on a string of another shape.  Python floats are
  modelled as real numbers.
\<close>

type_synonym datetime = int

type_synonym parser = "string \<Rightarrow> datetime option"

text \<open>\<open>(a - b).days\<close>: a \<open>timedelta\<close> keeps the floor of the difference in days.\<close>

definition timedelta_days :: "datetime \<Rightarrow> datetime \<Rightarrow> int" where
  "timedelta_days a b = (a - b) div 86400"

text \<open>\<open>d.date()\<close> as a day number.\<close>

definition date_of :: "datetime \<Rightarrow> int" where
  "date_of d = d div 86400"

text \<open>Truth value of an optional string: \<open>None\<close> and the empty string are false.\<close>

definition truthy_str :: "string option \<Rightarrow> bool" where
  "truthy_str s = (case s of None \<Rightarrow> False | Some t \<Rightarrow> t \<noteq> [])"

text \<open>\<open>x or d\<close> for an optional number: \<open>None\<close> and zero give \<open>d\<close>.\<close>

definition or_else :: "'a::zero option \<Rightarrow> 'a \<Rightarrow> 'a" where
  "or_else x d = (case x of None \<Rightarrow> d | Some v \<Rightarrow> if v = 0 then d else v)"

text \<open>\<open>round(x, 2)\<close>: to two decimals, a tie going to the even neighbour.\<close>

definition py_round2 :: "real \<Rightarrow> real" where
  "py_round2 x =
     (let y = x * 100; f = \<lfloor>y\<rfloor>; d = y - of_int f
      in (if d < 1 / 2 then of_int f
          else if d > 1 / 2 then of_int (f + 1)
          else if even f then of_int f else of_int (f + 1)) / 100)"

section \<open>Client risk profiles (analytics/advanced\_analytics.py)\<close>

datatype RiskLevel = LOW | MEDIUM | HIGH | CRITICAL

text \<open>The dataclass \<open>ClientRiskProfile\<close>; its fields carry the prefix \<open>crp_\<close>.\<close>

record ClientRiskProfile =
  crp_client_id :: int
  crp_client_name :: string
  crp_risk_level :: RiskLevel
  crp_bounce_rate :: real
  crp_total_cheques :: int
  crp_total_amount :: real
  crp_avg_processing_time :: real
  crp_last_bounce_date :: "int option"
  crp_risk_score :: real

text \<open>\<open>AdvancedAnalytics._calculate_risk_score\<close>.  The parameter \<open>active_months\<close> is
  accepted and never read, as in the source.\<close>

definition calculate_risk_score ::
  "parser \<Rightarrow> datetime \<Rightarrow> real \<Rightarrow> int \<Rightarrow> real \<Rightarrow> real \<Rightarrow> string option \<Rightarrow> int \<Rightarrow> real" where
  "calculate_risk_score strptime now bounce_rate total_cheques total_amount
       avg_processing_time last_bounce_date active_months =
     (let score = 0;
          score = score + min (bounce_rate * 2) 40;
          score = score + (if total_cheques < 5 then 20
                           else if total_cheques < 20 then 10 else 0);
          score = score + (if total_amount < 10000 then 15
                           else if total_amount < 50000 then 8 else 0);
          score = score + (if avg_processing_time > 30 then 10
                           else if avg_processing_time > 14 then 5 else 0);
          score = score +
            (if truthy_str last_bounce_date then
               (case strptime (the last_bounce_date) of
                  None \<Rightarrow> 0
                | Some last_bounce \<Rightarrow>
                    (let days_since_bounce = timedelta_days now last_bounce
                     in if days_since_bounce < 30 then 15
                        else if days_since_bounce < 90 then 10
                        else if days_since_bounce < 180 then 5 else 0))
             else 0)
      in min score 100)"

text \<open>A row of the aggregation query of \<open>calculate_client_risk_profiles\<close>.\<close>

record risk_row =
  rr_client_id :: int
  rr_name :: string
  rr_total_cheques :: int
  rr_total_amount :: "real option"
  rr_bounced_cheques :: int
  rr_avg_processing_time :: "real option"
  rr_last_bounce_date :: "string option"
  rr_avg_amount :: "real option"
  rr_active_months :: int

text \<open>The two values the loop body computes before the level: the bounce rate in
  percent and the score handed back by \<open>_calculate_risk_score\<close>.\<close>

definition row_bounce_rate :: "risk_row \<Rightarrow> real" where
  "row_bounce_rate row =
     (if rr_total_cheques row > 0
      then real_of_int (rr_bounced_cheques row) / real_of_int (rr_total_cheques row) * 100
      else 0)"

definition row_risk_score :: "parser \<Rightarrow> datetime \<Rightarrow> risk_row \<Rightarrow> real" where
  "row_risk_score strptime now row =
     calculate_risk_score strptime now (row_bounce_rate row) (rr_total_cheques row)
       (or_else (rr_total_amount row) 0) (or_else (rr_avg_processing_time row) 0)
       (rr_last_bounce_date row) (or_else (Some (rr_active_months row)) 1)"

text \<open>The body of the loop over the query's rows.  The only statement that can raise
  is the \<open>strptime\<close> of the profile's \<open>last_bounce_date\<close>, which has no handler of its
  own.\<close>

definition profile_of_row :: "parser \<Rightarrow> datetime \<Rightarrow> risk_row \<Rightarrow> py_error + ClientRiskProfile" where
  "profile_of_row strptime now row =
     (let bounce_rate = row_bounce_rate row;
          risk_score = row_risk_score strptime now row;
          risk_level =
            (if risk_score \<ge> 80 then CRITICAL
             else if risk_score \<ge> 60 then HIGH
             else if risk_score \<ge> 40 then MEDIUM
             else LOW)
      in case (if truthy_str (rr_last_bounce_date row)
               then (case strptime (the (rr_last_bounce_date row)) of
                       None \<Rightarrow> Inl ValueError
                     | Some d \<Rightarrow> Inr (Some (date_of d)))
               else Inr None) of
           Inl e \<Rightarrow> Inl e
         | Inr lbd \<Rightarrow>
             Inr \<lparr> crp_client_id = rr_client_id row,
                   crp_client_name = rr_name row,
                   crp_risk_level = risk_level,
                   crp_bounce_rate = py_round2 bounce_rate,
                   crp_total_cheques = rr_total_cheques row,
                   crp_total_amount = or_else (rr_total_amount row) 0,
                   crp_avg_processing_time = py_round2 (or_else (rr_avg_processing_time row) 0),
                   crp_last_bounce_date = lbd,
                   crp_risk_score = py_round2 risk_score \<rparr>)"

fun risk_profiles_loop :: "parser \<Rightarrow> datetime \<Rightarrow> risk_row list \<Rightarrow> py_error + ClientRiskProfile list" where
  "risk_profiles_loop strptime now [] = Inr []"
| "risk_profiles_loop strptime now (row # results) =
     (case profile_of_row strptime now row of
        Inl e \<Rightarrow> Inl e
      | Inr p \<Rightarrow>
          (case risk_profiles_loop strptime now results of
             Inl e \<Rightarrow> Inl e
           | Inr ps \<Rightarrow> Inr (p # ps)))"

text \<open>\<open>calculate_client_risk_profiles\<close>, from the outcome of its query (\<open>Inl\<close> when
  connecting or executing raised): any exception in the body is answered with the empty
  list.\<close>

definition calculate_client_risk_profiles ::
  "parser \<Rightarrow> datetime \<Rightarrow> py_error + risk_row list \<Rightarrow> ClientRiskProfile list" where
  "calculate_client_risk_profiles strptime now query =
     (case query of
        Inl e \<Rightarrow> []
      | Inr results \<Rightarrow>
          (case risk_profiles_loop strptime now results of
             Inl e \<Rightarrow> []
           | Inr risk_profiles \<Rightarrow> risk_profiles))"

section \<open>The AI risk score (automation/smart\_automation.py)\<close>

text \<open>The row of the aggregation query of \<open>calculate_ai_risk_score\<close>.\<close>

record ai_row =
  ai_total_cheques :: int
  ai_total_amount :: "real option"
  ai_avg_amount :: "real option"
  ai_bounced_count :: "int option"
  ai_avg_processing_time :: "real option"
  ai_active_months :: int
  ai_last_cheque_date :: "string option"
  ai_first_cheque_date :: "string option"
  ai_banks_used :: int

text \<open>
  The feature scores of the \<open>try\<close> block, one definition for each local variable of the
  source.  Arithmetic on a \<open>None\<close> column raises \<open>TypeError\<close>; the recency score has a
  handler of its own, which answers 0.
\<close>

definition ai_bounce_rate :: "ai_row \<Rightarrow> py_error + real" where
  "ai_bounce_rate d =
     (if ai_total_cheques d > 0
      then (case ai_bounced_count d of
              None \<Rightarrow> Inl TypeError
            | Some bounced_count \<Rightarrow>
                Inr (real_of_int bounced_count / real_of_int (ai_total_cheques d)))
      else Inr 0)"

definition ai_recency_score :: "parser \<Rightarrow> datetime \<Rightarrow> ai_row \<Rightarrow> real" where
  "ai_recency_score strptime now d =
     (case (case ai_last_cheque_date d of None \<Rightarrow> None | Some s \<Rightarrow> strptime s) of
        None \<Rightarrow> 0
      | Some last_date \<Rightarrow>
          (let days_since_last = timedelta_days now last_date
           in max 0 (100 - real_of_int days_since_last / 30 * 10)))"

definition ai_volume_score :: "ai_row \<Rightarrow> real" where
  "ai_volume_score d = real_of_int (min 100 (ai_total_cheques d * 2))"

definition ai_amount_variance_score :: "ai_row \<Rightarrow> py_error + real" where
  "ai_amount_variance_score d =
     (case ai_avg_amount d of
        None \<Rightarrow> Inl TypeError
      | Some avg_amount \<Rightarrow> Inr (100 - min 50 (avg_amount / 1000)))"

definition ai_processing_score :: "ai_row \<Rightarrow> real" where
  "ai_processing_score d =
     (case ai_avg_processing_time d of
        None \<Rightarrow> 100
      | Some t \<Rightarrow> if t = 0 then 100 else max 0 (100 - t * 2))"

definition ai_diversification_score :: "ai_row \<Rightarrow> real" where
  "ai_diversification_score d = real_of_int (min 100 (ai_banks_used d * 20))"

text \<open>The weighted risk calculation.\<close>

definition ai_weighted_risk :: "real \<Rightarrow> real \<Rightarrow> real \<Rightarrow> real \<Rightarrow> real \<Rightarrow> real \<Rightarrow> real" where
  "ai_weighted_risk bounce_rate recency_score volume_score amount_variance_score
       processing_score diversification_score =
     bounce_rate * 40 +
     (100 - recency_score) * 0.15 +
     (100 - volume_score) * 0.15 +
     amount_variance_score * 0.10 +
     (100 - processing_score) * 0.10 +
     (100 - diversification_score) * 0.10"

text \<open>The body of the \<open>try\<close> block: \<open>data\<close> is what \<open>fetchone\<close> returned.\<close>

definition ai_risk_body :: "parser \<Rightarrow> datetime \<Rightarrow> ai_row option \<Rightarrow> py_error + real" where
  "ai_risk_body strptime now data =
     (case data of
        None \<Rightarrow> Inr 50
      | Some d \<Rightarrow>
          if ai_total_cheques d = 0 then Inr 50
          else
            (case ai_bounce_rate d of
               Inl e \<Rightarrow> Inl e
             | Inr bounce_rate \<Rightarrow>
                 (case ai_amount_variance_score d of
                    Inl e \<Rightarrow> Inl e
                  | Inr amount_variance_score \<Rightarrow>
                      (let risk_score =
                             ai_weighted_risk bounce_rate (ai_recency_score strptime now d)
                               (ai_volume_score d) amount_variance_score
                               (ai_processing_score d) (ai_diversification_score d)
                       in Inr (min 100 (max 0 risk_score))))))"

text \<open>\<open>calculate_ai_risk_score\<close>, from the outcome of its query: every exception is
  answered with the neutral score 50.\<close>

definition calculate_ai_risk_score :: "parser \<Rightarrow> datetime \<Rightarrow> py_error + ai_row option \<Rightarrow> real" where
  "calculate_ai_risk_score strptime now query =
     (case query of
        Inl e \<Rightarrow> 50
      | Inr data \<Rightarrow>
          (case ai_risk_body strptime now data of
             Inl e \<Rightarrow> 50
           | Inr v \<Rightarrow> v))"

section \<open>Cheque rows and cheque dictionaries\<close>

text \<open>
  A row of the \<open>cheques\<close> table as \<open>init_database\<close> declares it.  The columns
  declared \<open>NOT NULL\<close> hold a value; every other column may hold \<open>NULL\<close> (\<open>None\<close>).
\<close>

record cheque_row =
  ch_id :: int
  ch_amount :: real
  ch_currency :: "string option"
  ch_issue_date :: string
  ch_due_date :: string
  ch_client_id :: "int option"
  ch_branch_id :: "int option"
  ch_status :: "string option"
  ch_cheque_number :: string
  ch_scan_path :: "string option"
  ch_depositor_name :: "string option"
  ch_invoice_number :: "string option"
  ch_invoice_date :: "string option"
  ch_notes :: "string option"
  ch_created_at :: "string option"
  ch_updated_at :: "string option"
  ch_created_by :: "int option"

text \<open>
  A Python dictionary describing a cheque (\<open>cheque_data\<close>), one field for each key the
  code reads: the key is absent, or present with a value of the column's type or with
  \<open>None\<close>.
\<close>

datatype 'a entry = Absent | Present "'a option"

record cheque_dict =
  d_id :: "int entry"
  d_amount :: "real entry"
  d_currency :: "string entry"
  d_issue_date :: "string entry"
  d_due_date :: "string entry"
  d_client_id :: "int entry"
  d_branch_id :: "int entry"
  d_status :: "string entry"
  d_cheque_number :: "string entry"
  d_depositor_name :: "string entry"
  d_invoice_number :: "string entry"
  d_invoice_date :: "string entry"
  d_notes :: "string entry"
  d_created_by :: "int entry"
  d_created_at :: "string entry"

text \<open>\<open>d.get(k)\<close>, \<open>d.get(k, default)\<close> and \<open>d[k]\<close>.\<close>

definition dict_get :: "'a entry \<Rightarrow> 'a option" where
  "dict_get e = (case e of Absent \<Rightarrow> None | Present v \<Rightarrow> v)"

definition dict_get_default :: "'a entry \<Rightarrow> 'a \<Rightarrow> 'a option" where
  "dict_get_default e dflt = (case e of Absent \<Rightarrow> Some dflt | Present v \<Rightarrow> v)"


text \<open>\<open>float(v)\<close> of a number or \<open>None\<close>.\<close>

definition py_float :: "real option \<Rightarrow> py_error + real" where
  "py_float v = (case v of None \<Rightarrow> Inl TypeError | Some x \<Rightarrow> Inr x)"

section \<open>Duplicate similarity (analytics/advanced\_analytics.py)\<close>

text \<open>The twelve columns of a row of the self-join of \<open>detect_duplicate_cheques\<close>,
  in the order of the \<open>SELECT\<close> (\<open>row[0]\<close> to \<open>row[11]\<close>).\<close>

record dup_row =
  dr_id1 :: int
  dr_number1 :: string
  dr_amount1 :: real
  dr_client1 :: "int option"
  dr_date1 :: "string option"
  dr_id2 :: int
  dr_number2 :: string
  dr_amount2 :: real
  dr_client2 :: "int option"
  dr_date2 :: "string option"
  dr_client_name1 :: "string option"
  dr_client_name2 :: "string option"

text \<open>\<open>datetime.strptime\<close> of a column: a \<open>NULL\<close> column raises as well.\<close>

definition strptime_col :: "parser \<Rightarrow> string option \<Rightarrow> datetime option" where
  "strptime_col strptime c = (case c of None \<Rightarrow> None | Some s \<Rightarrow> strptime s)"

text \<open>\<open>AdvancedAnalytics._calculate_similarity_score\<close>.  The date block sits in a
  \<open>try\<close> whose handler passes: it adds nothing when either date does not parse.\<close>

definition calculate_similarity_score :: "parser \<Rightarrow> dup_row \<Rightarrow> real" where
  "calculate_similarity_score strptime row =
     (let score = 0;
          score = (if dr_number1 row = dr_number2 row then score + 0.5 else score);
          score = (if dr_amount1 row = dr_amount2 row then score + 0.3 else score);
          score = (if dr_client1 row = dr_client2 row then score + 0.2 else score);
          score =
            (case strptime_col strptime (dr_date1 row) of
               None \<Rightarrow> score
             | Some date1 \<Rightarrow>
                 (case strptime_col strptime (dr_date2 row) of
                    None \<Rightarrow> score
                  | Some date2 \<Rightarrow>
                      (let days_diff = \<bar>timedelta_days date1 date2\<bar>
                       in if days_diff \<le> 1 then score + 0.2
                          else if days_diff \<le> 7 then score + 0.1
                          else score)))
      in min score 1.0)"

text \<open>The row the self-join yields for a pair of cheques; \<open>name_of_client\<close> is the
  \<open>LEFT JOIN\<close> on the clients table.\<close>

definition dup_row_of :: "(int \<Rightarrow> string option) \<Rightarrow> cheque_row \<Rightarrow> cheque_row \<Rightarrow> dup_row" where
  "dup_row_of name_of_client c1 c2 =
     \<lparr> dr_id1 = ch_id c1, dr_number1 = ch_cheque_number c1, dr_amount1 = ch_amount c1,
       dr_client1 = ch_client_id c1, dr_date1 = ch_created_at c1,
       dr_id2 = ch_id c2, dr_number2 = ch_cheque_number c2, dr_amount2 = ch_amount c2,
       dr_client2 = ch_client_id c2, dr_date2 = ch_created_at c2,
       dr_client_name1 = (case ch_client_id c1 of None \<Rightarrow> None | Some i \<Rightarrow> name_of_client i),
       dr_client_name2 = (case ch_client_id c2 of None \<Rightarrow> None | Some i \<Rightarrow> name_of_client i) \<rparr>"

section \<open>Duplicate similarity (automation/smart\_automation.py)\<close>

text \<open>\<open>SmartAutomation._calculate_cheque_similarity\<close>.  \<open>float(None)\<close> raises
  \<open>TypeError\<close>, and the method has no handler.\<close>

definition calculate_cheque_similarity :: "cheque_dict \<Rightarrow> cheque_dict \<Rightarrow> py_error + real" where
  "calculate_cheque_similarity cheque1 cheque2 =
     (let score = 0;
          score = (if dict_get (d_cheque_number cheque1) = dict_get (d_cheque_number cheque2)
                   then score + 0.5 else score)
      in case py_float (dict_get_default (d_amount cheque1) 0) of
           Inl e \<Rightarrow> Inl e
         | Inr amount1 \<Rightarrow>
             (case py_float (dict_get_default (d_amount cheque2) 0) of
                Inl e \<Rightarrow> Inl e
              | Inr amount2 \<Rightarrow>
                  (let score = (if \<bar>amount1 - amount2\<bar> < 0.01 then score + 0.3 else score);
                       score = (if dict_get (d_client_id cheque1) = dict_get (d_client_id cheque2)
                                then score + 0.15 else score);
                       score = (if dict_get (d_branch_id cheque1) = dict_get (d_branch_id cheque2)
                                then score + 0.05 else score)
                   in Inr (min score 1.0))))"

text \<open>The dictionary \<open>detect_advanced_duplicates\<close> builds from a matching row
  (\<open>id, cheque_number, amount, client_id, created_at, branch_id\<close>).\<close>

definition match_dict :: "cheque_row \<Rightarrow> cheque_dict" where
  "match_dict m =
     \<lparr> d_id = Present (Some (ch_id m)),
       d_amount = Present (Some (ch_amount m)),
       d_currency = Absent, d_issue_date = Absent, d_due_date = Absent,
       d_client_id = Present (ch_client_id m),
       d_branch_id = Present (ch_branch_id m),
       d_status = Absent,
       d_cheque_number = Present (Some (ch_cheque_number m)),
       d_depositor_name = Absent, d_invoice_number = Absent, d_invoice_date = Absent,
       d_notes = Absent, d_created_by = Absent,
       d_created_at = Present (ch_created_at m) \<rparr>"

section \<open>The database (database/db\_manager.py)\<close>

text \<open>
  The tables of \<open>init_database\<close> that the modelled operations read or write, each a
  list of rows in insertion order.  \<open>seq_cheques\<close> and \<open>seq_notifications\<close> are the
  \<open>AUTOINCREMENT\<close> counters.  \<open>CURRENT_TIMESTAMP\<close> is an input \<open>now\<close> of the
  operations that store it.
\<close>

record bank_row =
  bk_id :: int
  bk_name :: string
  bk_code :: "string option"
  bk_created_at :: "string option"
  bk_active :: bool

record branch_row =
  br_id :: int
  br_bank_id :: int
  br_name :: string
  br_address :: "string option"
  br_postal_code :: "string option"
  br_phone :: "string option"
  br_email :: "string option"
  br_created_at :: "string option"
  br_active :: bool

record client_row =
  cl_id :: int
  cl_type :: string
  cl_name :: string
  cl_id_number :: "string option"
  cl_vat_number :: "string option"
  cl_address :: "string option"
  cl_phone :: "string option"
  cl_email :: "string option"
  cl_created_at :: "string option"
  cl_active :: bool

record user_row =
  us_id :: int
  us_username :: string
  us_password_hash :: string
  us_role :: string
  us_full_name :: "string option"
  us_email :: "string option"
  us_active :: bool
  us_created_at :: "string option"
  us_last_login :: "string option"

record notification_row =
  nt_id :: int
  nt_type :: string
  nt_title :: string
  nt_message :: string
  nt_cheque_id :: "int option"
  nt_user_id :: "int option"
  nt_read :: bool
  nt_created_at :: "string option"

record database =
  banks :: "bank_row list"
  branches :: "branch_row list"
  clients :: "client_row list"
  cheques :: "cheque_row list"
  users :: "user_row list"
  notifications :: "notification_row list"
  seq_cheques :: int
  seq_notifications :: int


subsection \<open>Inserting a cheque\<close>







text \<open>\<open>check_duplicate_cheque\<close>: \<open>COUNT(*) > 0\<close> of the rows with that number and
  branch; \<open>branch_id = NULL\<close> selects nothing.\<close>

definition check_duplicate_cheque :: "database \<Rightarrow> string \<Rightarrow> int option \<Rightarrow> bool" where
  "check_duplicate_cheque db cheque_number branch_id =
     (case branch_id of
        None \<Rightarrow> False
      | Some b \<Rightarrow>
          length (filter (\<lambda>r. ch_cheque_number r = cheque_number \<and> ch_branch_id r = Some b)
                    (cheques db)) > 0)"

subsection \<open>Changing a cheque's status\<close>

text \<open>The dictionary \<open>status_messages\<close> of \<open>_create_status_notification\<close>; the
  accented letters are their UTF-8 bytes.\<close>

definition e_grave :: string where
  "e_grave = [CHR 0xC3, CHR 0xA8]"

definition e_acute :: string where
  "e_acute = [CHR 0xC3, CHR 0xA9]"





subsection \<open>Soft deletes\<close>

text \<open>\<open>DatabaseManager.delete_bank\<close>: \<open>UPDATE banks SET active = FALSE WHERE id = ?\<close>,
  returning \<open>cursor.rowcount > 0\<close>.\<close>

definition delete_bank :: "database \<Rightarrow> int \<Rightarrow> database \<times> bool" where
  "delete_bank db bank_id =
     (db\<lparr>banks := map (\<lambda>r. if bk_id r = bank_id then r\<lparr>bk_active := False\<rparr> else r) (banks db)\<rparr>,
      length (filter (\<lambda>r. bk_id r = bank_id) (banks db)) > 0)"

text \<open>\<open>SettingsFrame.delete_branch\<close> (ui/components/settings.py): \<open>selection\<close> is the id
  of the selected tree row, if any, and \<open>confirmed\<close> the answer to the dialog.\<close>

definition delete_branch :: "database \<Rightarrow> int option \<Rightarrow> bool \<Rightarrow> database" where
  "delete_branch db selection confirmed =
     (case selection of
        None \<Rightarrow> db
      | Some branch_id \<Rightarrow>
          if confirmed
          then db\<lparr>branches :=
                    map (\<lambda>r. if br_id r = branch_id then r\<lparr>br_active := False\<rparr> else r)
                      (branches db)\<rparr>
          else db)"

text \<open>\<open>SettingsFrame.delete_user\<close>: as above, and the current user's own account is
  refused.\<close>

definition delete_user :: "database \<Rightarrow> int \<Rightarrow> int option \<Rightarrow> bool \<Rightarrow> database" where
  "delete_user db current_user_id selection confirmed =
     (case selection of
        None \<Rightarrow> db
      | Some user_id \<Rightarrow>
          if user_id = current_user_id then db
          else if confirmed
          then db\<lparr>users :=
                    map (\<lambda>r. if us_id r = user_id then r\<lparr>us_active := False\<rparr> else r)
                      (users db)\<rparr>
          else db)"

text \<open>
  Modelled from the spec: a soft delete of a client.  No source file changes the
  \<open>active\<close> column of \<open>clients\<close>; the specification's "soft-deleting a
  bank/branch/client/user flips its active flag" is read as the same \<open>UPDATE\<close> the other
  three tables get.
\<close>

definition delete_client :: "database \<Rightarrow> int \<Rightarrow> database" where
  "delete_client db client_id =
     db\<lparr>clients := map (\<lambda>r. if cl_id r = client_id then r\<lparr>cl_active := False\<rparr> else r)
                       (clients db)\<rparr>"

section \<open>Cheque aging analysis (analytics/advanced\_analytics.py)\<close>








section \<open>Advanced duplicate detection (automation/smart\_automation.py)\<close>

text \<open>\<open>round(x, 1)\<close>: to one decimal, a tie going to the even neighbour.\<close>

definition py_round1 :: "real \<Rightarrow> real" where
  "py_round1 x =
     (let y = x * 10; f = \<lfloor>y\<rfloor>; d = y - of_int f
      in (if d < 1 / 2 then of_int f
          else if d > 1 / 2 then of_int (f + 1)
          else if even f then of_int f else of_int (f + 1)) / 10)"

text \<open>The four reasons of \<open>_get_duplicate_reasons\<close>; \<open>e_circ\<close> is the UTF-8 of the
  letter e with a circumflex.\<close>

definition e_circ :: string where
  "e_circ = [CHR 0xC3, CHR 0xAA]"

definition reason_number :: string where
  "reason_number = ''M'' @ e_circ @ ''me num'' @ e_acute @ ''ro de ch'' @ e_grave @ ''que''"

definition reason_amount :: string where
  "reason_amount = ''M'' @ e_circ @ ''me montant''"

definition reason_client :: string where
  "reason_client = ''M'' @ e_circ @ ''me client''"

definition reason_branch :: string where
  "reason_branch = ''M'' @ e_circ @ ''me agence''"

text \<open>\<open>_get_duplicate_reasons\<close>: the second cheque is the row of the query
  (\<open>id, cheque_number, amount, client_id, created_at, branch_id\<close>).\<close>

definition get_duplicate_reasons :: "cheque_dict \<Rightarrow> cheque_row \<Rightarrow> py_error + string list" where
  "get_duplicate_reasons cheque1 cheque2_tuple =
     (let reasons = [];
          reasons = (if dict_get (d_cheque_number cheque1) = Some (ch_cheque_number cheque2_tuple)
                     then reasons @ [reason_number] else reasons)
      in case py_float (dict_get_default (d_amount cheque1) 0) of
           Inl e \<Rightarrow> Inl e
         | Inr amount1 \<Rightarrow>
             (let reasons = (if \<bar>amount1 - ch_amount cheque2_tuple\<bar> < 0.01
                             then reasons @ [reason_amount] else reasons);
                  reasons = (if dict_get (d_client_id cheque1) = ch_client_id cheque2_tuple
                             then reasons @ [reason_client] else reasons);
                  reasons = (if dict_get (d_branch_id cheque1) = ch_branch_id cheque2_tuple
                             then reasons @ [reason_branch] else reasons)
              in Inr reasons))"

text \<open>An entry of the result list (keys \<open>existing_cheque_id\<close>, \<open>similarity_score\<close>,
  \<open>match_criteria\<close>).\<close>

record duplicate_hit =
  dh_existing_cheque_id :: int
  dh_similarity_score :: real
  dh_match_criteria :: "string list"

text \<open>The loop over \<open>potential_matches\<close>.\<close>

fun duplicates_loop :: "cheque_dict \<Rightarrow> cheque_row list \<Rightarrow> py_error + duplicate_hit list" where
  "duplicates_loop cheque_data [] = Inr []"
| "duplicates_loop cheque_data (match # potential_matches) =
     (case calculate_cheque_similarity cheque_data (match_dict match) of
        Inl e \<Rightarrow> Inl e
      | Inr similarity_score \<Rightarrow>
          (case (if similarity_score > 0.7
                 then (case get_duplicate_reasons cheque_data match of
                         Inl e \<Rightarrow> Inl e
                       | Inr reasons \<Rightarrow>
                           Inr [\<lparr> dh_existing_cheque_id = ch_id match,
                                   dh_similarity_score = py_round1 (similarity_score * 100),
                                   dh_match_criteria = reasons \<rparr>])
                 else Inr []) of
             Inl e \<Rightarrow> Inl e
           | Inr hit \<Rightarrow>
               (case duplicates_loop cheque_data potential_matches of
                  Inl e \<Rightarrow> Inl e
                | Inr duplicates \<Rightarrow> Inr (hit @ duplicates))))"


section \<open>The weighting schemes in the words of the specification\<close>

text \<open>
  The pool scorer: number match 0.5, amount match 0.3, client match 0.15, branch match
  0.05, capped at 1.  The pairwise scorer: number match 0.5, amount match 0.3, client
  match 0.2, date proximity 0.2 within one day and 0.1 within seven days, capped at 1;
  \<open>days\<close> is the distance in days, \<open>None\<close> when a date is unreadable.
\<close>

definition weight :: "bool \<Rightarrow> real \<Rightarrow> real" where
  "weight c w = (if c then w else 0)"

definition date_proximity :: "int option \<Rightarrow> real" where
  "date_proximity days =
     (case days of
        None \<Rightarrow> 0
      | Some n \<Rightarrow> if n \<le> 1 then 0.2 else if n \<le> 7 then 0.1 else 0)"

definition spec_pool_score :: "bool \<Rightarrow> bool \<Rightarrow> bool \<Rightarrow> bool \<Rightarrow> real" where
  "spec_pool_score number_match amount_match client_match branch_match =
     min 1 (weight number_match 0.5 + weight amount_match 0.3
            + weight client_match 0.15 + weight branch_match 0.05)"

definition spec_pairwise_score :: "bool \<Rightarrow> bool \<Rightarrow> bool \<Rightarrow> int option \<Rightarrow> real" where
  "spec_pairwise_score number_match amount_match client_match days =
     min 1 (weight number_match 0.5 + weight amount_match 0.3
            + weight client_match 0.2 + date_proximity days)"

text \<open>The sub-criteria as the two scorers test them.\<close>

definition row_days_diff :: "parser \<Rightarrow> dup_row \<Rightarrow> int option" where
  "row_days_diff strptime row =
     (case strptime_col strptime (dr_date1 row) of
        None \<Rightarrow> None
      | Some date1 \<Rightarrow>
          (case strptime_col strptime (dr_date2 row) of
             None \<Rightarrow> None
           | Some date2 \<Rightarrow> Some \<bar>timedelta_days date1 date2\<bar>))"

definition dict_amount :: "cheque_dict \<Rightarrow> real option" where
  "dict_amount c = dict_get_default (d_amount c) 0"

definition pool_number_match :: "cheque_dict \<Rightarrow> cheque_dict \<Rightarrow> bool" where
  "pool_number_match c1 c2 = (dict_get (d_cheque_number c1) = dict_get (d_cheque_number c2))"

definition pool_amount_match :: "cheque_dict \<Rightarrow> cheque_dict \<Rightarrow> bool" where
  "pool_amount_match c1 c2 =
     (case (dict_amount c1, dict_amount c2) of
        (Some a1, Some a2) \<Rightarrow> \<bar>a1 - a2\<bar> < 0.01
      | _ \<Rightarrow> False)"

definition pool_client_match :: "cheque_dict \<Rightarrow> cheque_dict \<Rightarrow> bool" where
  "pool_client_match c1 c2 = (dict_get (d_client_id c1) = dict_get (d_client_id c2))"

definition pool_branch_match :: "cheque_dict \<Rightarrow> cheque_dict \<Rightarrow> bool" where
  "pool_branch_match c1 c2 = (dict_get (d_branch_id c1) = dict_get (d_branch_id c2))"

section \<open>Example inputs\<close>

text \<open>Concrete rows and records at which the theorems below are instantiated.\<close>

definition ex_ai_row :: ai_row where
  "ex_ai_row = \<lparr> ai_total_cheques = 10, ai_total_amount = Some 50000, ai_avg_amount = Some 5000,
      ai_bounced_count = Some 1, ai_avg_processing_time = Some 5, ai_active_months = 3,
      ai_last_cheque_date = None, ai_first_cheque_date = None, ai_banks_used = 2 \<rparr>"

definition ex_risk_row :: risk_row where
  "ex_risk_row = \<lparr> rr_client_id = 5, rr_name = ''ACME'', rr_total_cheques = 4,
      rr_total_amount = Some 5000, rr_bounced_cheques = 1, rr_avg_processing_time = Some 2,
      rr_last_bounce_date = None, rr_avg_amount = Some 1250, rr_active_months = 2 \<rparr>"


definition ex_profile :: ClientRiskProfile where
  "ex_profile = \<lparr> crp_client_id = 5, crp_client_name = ''ACME'', crp_risk_level = HIGH, crp_bounce_rate = 25,
      crp_total_cheques = 4, crp_total_amount = 5000, crp_avg_processing_time = 2,
      crp_last_bounce_date = None, crp_risk_score = 75 \<rparr>"

definition ex_cheque_a :: cheque_row where
  "ex_cheque_a = \<lparr> ch_id = 1, ch_amount = 1000, ch_currency = Some ''MAD'',
      ch_issue_date = ''2024-01-01'', ch_due_date = ''2024-02-01'', ch_client_id = Some 5,
      ch_branch_id = Some 2, ch_status = Some ''en_attente'', ch_cheque_number = ''A1'',
      ch_scan_path = None, ch_depositor_name = None, ch_invoice_number = None,
      ch_invoice_date = None, ch_notes = None, ch_created_at = None, ch_updated_at = None,
      ch_created_by = Some 1 \<rparr>"

definition ex_cheque_b :: cheque_row where
  "ex_cheque_b = ex_cheque_a \<lparr> ch_id := 2, ch_amount := 2500, ch_branch_id := Some 3,
      ch_cheque_number := ''B7'' \<rparr>"

definition ex_cheque_c :: cheque_row where
  "ex_cheque_c = ex_cheque_a \<lparr> ch_id := 3, ch_amount := 2500 \<rparr>"

definition ex_db_empty :: database where
  "ex_db_empty = \<lparr> banks = [], branches = [], clients = [], cheques = [], users = [],
      notifications = [], seq_cheques = 0, seq_notifications = 0 \<rparr>"


definition ex_now :: string where
  "ex_now = ''2024-01-01 10:00:00''"

definition ex_row_a1 :: cheque_row where
  "ex_row_a1 = \<lparr> ch_id = 1, ch_amount = 1000, ch_currency = Some ''MAD'',
      ch_issue_date = ''2024-01-01'', ch_due_date = ''2024-02-01'', ch_client_id = Some 5,
      ch_branch_id = Some 2, ch_status = Some ''en_attente'', ch_cheque_number = ''A1'',
      ch_scan_path = None, ch_depositor_name = None, ch_invoice_number = None,
      ch_invoice_date = None, ch_notes = None, ch_created_at = Some ex_now,
      ch_updated_at = Some ex_now, ch_created_by = Some 1 \<rparr>"

definition ex_db_a1 :: database where
  "ex_db_a1 = ex_db_empty \<lparr> cheques := [ex_row_a1], seq_cheques := 1 \<rparr>"



definition ex_bank :: "int \<Rightarrow> string \<Rightarrow> bank_row" where
  "ex_bank i n = \<lparr> bk_id = i, bk_name = n, bk_code = None, bk_created_at = Some ex_now,
      bk_active = True \<rparr>"

definition ex_db_banks :: database where
  "ex_db_banks = ex_db_a1 \<lparr> banks := [ex_bank 1 ''BMCI'', ex_bank 2 ''CIH''] \<rparr>"





section \<open>Theorems\<close>

text \<open>Unfolding rules for the example inputs and for the database operations.\<close>

lemmas ex_cheque_defs = ex_cheque_a_def ex_cheque_b_def ex_cheque_c_def





subsection \<open>C1: the risk scores are bounded and monotone in the bounce rate\<close>

lemma calculate_risk_score_mono:
  "b \<le> b' \<Longrightarrow> calculate_risk_score P now b tc ta apt lbd am
             \<le> calculate_risk_score P now b' tc ta apt lbd am"
  unfolding calculate_risk_score_def Let_def
  by (intro min.mono add_mono order_refl mult_right_mono) simp_all

lemma calculate_risk_score_upper:
  "calculate_risk_score P now b tc ta apt lbd am \<le> 100"
  unfolding calculate_risk_score_def Let_def by (rule min.cobounded2)

lemma calculate_risk_score_lower:
  "0 \<le> b \<Longrightarrow> 0 \<le> calculate_risk_score P now b tc ta apt lbd am"
  unfolding calculate_risk_score_def Let_def
  by (intro min.boundedI add_nonneg_nonneg) (simp_all split: option.split)

lemma row_bounce_rate_nonneg:
  "0 \<le> rr_bounced_cheques row \<Longrightarrow> 0 \<le> row_bounce_rate row"
  unfolding row_bounce_rate_def by simp

lemma ai_risk_body_range:
  "ai_risk_body P now data = Inr v \<Longrightarrow> 0 \<le> v \<and> v \<le> 100"
  unfolding ai_risk_body_def Let_def
  by (auto split: option.splits sum.splits if_split_asm)

lemma calculate_ai_risk_score_range:
  "0 \<le> calculate_ai_risk_score P now q \<and> calculate_ai_risk_score P now q \<le> 100"
  unfolding calculate_ai_risk_score_def
  by (auto split: sum.splits dest: ai_risk_body_range)

lemma ai_weighted_risk_mono:
  "r \<le> r' \<Longrightarrow> ai_weighted_risk r a b c d e \<le> ai_weighted_risk r' a b c d e"
  unfolding ai_weighted_risk_def by simp

lemma ai_features_fixed:
  "ai_amount_variance_score (d\<lparr>ai_bounced_count := x\<rparr>) = ai_amount_variance_score d"
  "ai_recency_score P now (d\<lparr>ai_bounced_count := x\<rparr>) = ai_recency_score P now d"
  "ai_volume_score (d\<lparr>ai_bounced_count := x\<rparr>) = ai_volume_score d"
  "ai_processing_score (d\<lparr>ai_bounced_count := x\<rparr>) = ai_processing_score d"
  "ai_diversification_score (d\<lparr>ai_bounced_count := x\<rparr>) = ai_diversification_score d"
  by (simp_all add: ai_amount_variance_score_def ai_recency_score_def ai_volume_score_def
      ai_processing_score_def ai_diversification_score_def)

lemma calculate_ai_risk_score_mono:
  assumes r: "ai_bounce_rate d = Inr r" "ai_bounce_rate (d\<lparr>ai_bounced_count := x\<rparr>) = Inr r'"
    and le: "r \<le> r'"
  shows "calculate_ai_risk_score P now (Inr (Some d))
       \<le> calculate_ai_risk_score P now (Inr (Some (d\<lparr>ai_bounced_count := x\<rparr>)))"
proof (cases "ai_amount_variance_score d")
  case (Inl e)
  with r show ?thesis
    by (simp add: calculate_ai_risk_score_def ai_risk_body_def ai_features_fixed)
next
  case (Inr a)
  have "min 100 (max 0 (ai_weighted_risk r x1 x2 a x3 x4))
      \<le> min 100 (max 0 (ai_weighted_risk r' x1 x2 a x3 x4))" for x1 x2 x3 x4
    using ai_weighted_risk_mono [OF le] by (intro min.mono max.mono order_refl)
  with Inr r show ?thesis
    by (simp add: calculate_ai_risk_score_def ai_risk_body_def Let_def ai_features_fixed)
qed

text \<open>
  Claim C1.  For a bounce rate that is not negative (it is a share of the client's cheques,
  and \<open>calculate_client_risk_profiles\<close> passes \<open>bounced / total * 100\<close>),
  \<open>_calculate_risk_score\<close> returns a score in [0,100], and it is non-decreasing in the
  bounce rate with every other argument fixed; the score computed for a row of the profile
  query with a non-negative bounce count is in [0,100].  \<open>calculate_ai_risk_score\<close>
  returns a score in [0,100] on every outcome of its query, and it is non-decreasing in the
  bounce rate when only the bounce count of the row changes.
\<close>

theorem risk_scores_bounded_and_monotone:
  "(0 \<le> b \<longrightarrow>
      0 \<le> calculate_risk_score P now b tc ta apt lbd am
      \<and> calculate_risk_score P now b tc ta apt lbd am \<le> 100)
   \<and> (b \<le> b' \<longrightarrow>
      calculate_risk_score P now b tc ta apt lbd am
        \<le> calculate_risk_score P now b' tc ta apt lbd am)
   \<and> (0 \<le> rr_bounced_cheques row \<longrightarrow>
      0 \<le> row_risk_score P now row \<and> row_risk_score P now row \<le> 100)
   \<and> 0 \<le> calculate_ai_risk_score P now q
   \<and> calculate_ai_risk_score P now q \<le> 100
   \<and> (ai_bounce_rate d = Inr r \<and> ai_bounce_rate (d\<lparr>ai_bounced_count := x\<rparr>) = Inr r' \<and> r \<le> r' \<longrightarrow>
      calculate_ai_risk_score P now (Inr (Some d))
        \<le> calculate_ai_risk_score P now (Inr (Some (d\<lparr>ai_bounced_count := x\<rparr>))))"
proof (intro conjI impI)
  assume "0 \<le> b"
  then show "0 \<le> calculate_risk_score P now b tc ta apt lbd am"
    by (rule calculate_risk_score_lower)
next
  show "calculate_risk_score P now b tc ta apt lbd am \<le> 100"
    by (rule calculate_risk_score_upper)
next
  assume "b \<le> b'"
  then show "calculate_risk_score P now b tc ta apt lbd am
        \<le> calculate_risk_score P now b' tc ta apt lbd am"
    by (rule calculate_risk_score_mono)
next
  assume "0 \<le> rr_bounced_cheques row"
  then show "0 \<le> row_risk_score P now row"
    unfolding row_risk_score_def
    by (intro calculate_risk_score_lower row_bounce_rate_nonneg)
next
  show "row_risk_score P now row \<le> 100"
    unfolding row_risk_score_def by (rule calculate_risk_score_upper)
next
  show "0 \<le> calculate_ai_risk_score P now q"
    using calculate_ai_risk_score_range by blast
next
  show "calculate_ai_risk_score P now q \<le> 100"
    using calculate_ai_risk_score_range by blast
next
  assume "ai_bounce_rate d = Inr r \<and> ai_bounce_rate (d\<lparr>ai_bounced_count := x\<rparr>) = Inr r' \<and> r \<le> r'"
  then show "calculate_ai_risk_score P now (Inr (Some d))
        \<le> calculate_ai_risk_score P now (Inr (Some (d\<lparr>ai_bounced_count := x\<rparr>)))"
    using calculate_ai_risk_score_mono by blast
qed

theorem risk_scores_bounded_and_monotone_witness:
  "(0::real) \<le> 10 \<and> (10::real) \<le> 15
   \<and> calculate_risk_score (\<lambda>s. None) 0 10 3 500 0 None 1 = 55
   \<and> calculate_risk_score (\<lambda>s. None) 0 15 3 500 0 None 1 = 65
   \<and> 0 \<le> rr_bounced_cheques ex_risk_row
   \<and> row_risk_score (\<lambda>s. None) 0 ex_risk_row \<le> 100
   \<and> ai_bounce_rate ex_ai_row = Inr (1 / 10)
   \<and> ai_bounce_rate (ex_ai_row\<lparr>ai_bounced_count := Some 3\<rparr>) = Inr (3 / 10)
   \<and> calculate_ai_risk_score (\<lambda>s. None) 0 (Inr (Some ex_ai_row))
       \<le> calculate_ai_risk_score (\<lambda>s. None) 0 (Inr (Some (ex_ai_row\<lparr>ai_bounced_count := Some 3\<rparr>)))"
proof -
  have a: "calculate_risk_score (\<lambda>s. None) 0 10 3 500 0 None 1 = 55"
    by (simp add: calculate_risk_score_def truthy_str_def)
  have b: "calculate_risk_score (\<lambda>s. None) 0 15 3 500 0 None 1 = 65"
    by (simp add: calculate_risk_score_def truthy_str_def)
  have c: "0 \<le> rr_bounced_cheques ex_risk_row" by (simp add: ex_risk_row_def)
  have d: "ai_bounce_rate ex_ai_row = Inr (1 / 10)"
    by (simp add: ai_bounce_rate_def ex_ai_row_def)
  have e: "ai_bounce_rate (ex_ai_row\<lparr>ai_bounced_count := Some 3\<rparr>) = Inr (3 / 10)"
    by (simp add: ai_bounce_rate_def ex_ai_row_def)
  note t = risk_scores_bounded_and_monotone [of 10 "\<lambda>s. None" 0 3 500 0 None 1 15 ex_risk_row
      "Inr None" ex_ai_row "1 / 10" "Some 3" "3 / 10"]
  from t c have f: "row_risk_score (\<lambda>s. None) 0 ex_risk_row \<le> 100" by blast
  from t d e have g: "calculate_ai_risk_score (\<lambda>s. None) 0 (Inr (Some ex_ai_row))
       \<le> calculate_ai_risk_score (\<lambda>s. None) 0 (Inr (Some (ex_ai_row\<lparr>ai_bounced_count := Some 3\<rparr>)))"
    by simp
  from a b c d e f g show ?thesis by simp
qed

subsection \<open>The two similarity scorers as weighted sums\<close>

lemma weight_mono: "(c \<longrightarrow> c') \<Longrightarrow> 0 \<le> w \<Longrightarrow> weight c w \<le> weight c' w"
  by (simp add: weight_def)

lemma weight_nonneg: "0 \<le> w \<Longrightarrow> 0 \<le> weight c w"
  by (simp add: weight_def)

lemma date_proximity_nonneg: "0 \<le> date_proximity d"
  by (simp add: date_proximity_def split: option.split)

lemma calculate_similarity_score_weights:
  "calculate_similarity_score P row =
     spec_pairwise_score (dr_number1 row = dr_number2 row) (dr_amount1 row = dr_amount2 row)
       (dr_client1 row = dr_client2 row) (row_days_diff P row)"
  unfolding calculate_similarity_score_def spec_pairwise_score_def row_days_diff_def
    date_proximity_def weight_def Let_def
  by (simp split: option.split add: min.commute)

lemma calculate_cheque_similarity_weights:
  "calculate_cheque_similarity c1 c2 =
     (if dict_amount c1 = None \<or> dict_amount c2 = None then Inl TypeError
      else Inr (spec_pool_score (pool_number_match c1 c2) (pool_amount_match c1 c2)
                  (pool_client_match c1 c2) (pool_branch_match c1 c2)))"
  unfolding calculate_cheque_similarity_def spec_pool_score_def dict_amount_def
    pool_number_match_def pool_amount_match_def pool_client_match_def pool_branch_match_def
    weight_def py_float_def Let_def
  by (simp split: option.split add: min.commute)

lemma spec_pool_score_range: "0 \<le> spec_pool_score a b c d \<and> spec_pool_score a b c d \<le> 1"
  unfolding spec_pool_score_def
  by (intro conjI min.boundedI add_nonneg_nonneg weight_nonneg min.cobounded1) simp_all

lemma spec_pairwise_score_range:
  "0 \<le> spec_pairwise_score a b c d \<and> spec_pairwise_score a b c d \<le> 1"
  unfolding spec_pairwise_score_def
  by (intro conjI min.boundedI add_nonneg_nonneg weight_nonneg date_proximity_nonneg min.cobounded1)
    simp_all

lemma spec_pool_score_mono:
  "(a \<longrightarrow> a') \<Longrightarrow> (b \<longrightarrow> b') \<Longrightarrow> (c \<longrightarrow> c') \<Longrightarrow> (d \<longrightarrow> d') \<Longrightarrow>
   spec_pool_score a b c d \<le> spec_pool_score a' b' c' d'"
  unfolding spec_pool_score_def
  by (intro min.mono add_mono order_refl weight_mono) simp_all

lemma spec_pairwise_score_mono:
  "(a \<longrightarrow> a') \<Longrightarrow> (b \<longrightarrow> b') \<Longrightarrow> (c \<longrightarrow> c') \<Longrightarrow> date_proximity d \<le> date_proximity d' \<Longrightarrow>
   spec_pairwise_score a b c d \<le> spec_pairwise_score a' b' c' d'"
  unfolding spec_pairwise_score_def
  by (intro min.mono add_mono order_refl weight_mono) simp_all

lemma ex_pairwise_ab:
  "calculate_similarity_score P (dup_row_of names ex_cheque_a ex_cheque_b) = 0.2"
  by (simp add: calculate_similarity_score_def dup_row_of_def ex_cheque_defs strptime_col_def)

lemma ex_pairwise_ac:
  "calculate_similarity_score P (dup_row_of names ex_cheque_a ex_cheque_c) = 0.7"
  by (simp add: calculate_similarity_score_def dup_row_of_def ex_cheque_defs strptime_col_def)

lemma ex_pool_ab:
  "calculate_cheque_similarity (match_dict ex_cheque_a) (match_dict ex_cheque_b) = Inr 0.15"
  by (simp add: calculate_cheque_similarity_def match_dict_def ex_cheque_defs dict_get_def
      dict_get_default_def py_float_def)

lemma ex_pool_ac:
  "calculate_cheque_similarity (match_dict ex_cheque_a) (match_dict ex_cheque_c) = Inr 0.7"
  by (simp add: calculate_cheque_similarity_def match_dict_def ex_cheque_defs dict_get_def
      dict_get_default_def py_float_def)

subsection \<open>C2: the similarity scores are bounded and monotone in the criteria\<close>

text \<open>
  Claim C2.  \<open>_calculate_similarity_score\<close> returns a score in [0,1] for every row, and
  \<open>_calculate_cheque_similarity\<close> returns one in [0,1] whenever it returns, which it does
  for every pair of dictionaries whose amounts are numbers.  Both are monotone in the
  sub-criteria: a pair that satisfies every criterion another pair satisfies (number,
  amount, client, and the date proximity at an equal or higher grade for the pairwise
  scorer; number, amount, client, branch for the pool scorer) scores at least as much.
\<close>

theorem similarity_scores_bounded_and_monotone:
  "0 \<le> calculate_similarity_score P row \<and> calculate_similarity_score P row \<le> 1
   \<and> (calculate_cheque_similarity c1 c2 = Inr s \<longrightarrow> 0 \<le> s \<and> s \<le> 1)
   \<and> (dict_amount c1 \<noteq> None \<and> dict_amount c2 \<noteq> None \<longrightarrow>
        (\<exists>v. calculate_cheque_similarity c1 c2 = Inr v))
   \<and> ((dr_number1 row = dr_number2 row \<longrightarrow> dr_number1 row' = dr_number2 row')
        \<and> (dr_amount1 row = dr_amount2 row \<longrightarrow> dr_amount1 row' = dr_amount2 row')
        \<and> (dr_client1 row = dr_client2 row \<longrightarrow> dr_client1 row' = dr_client2 row')
        \<and> date_proximity (row_days_diff P row) \<le> date_proximity (row_days_diff P row')
        \<longrightarrow> calculate_similarity_score P row \<le> calculate_similarity_score P row')
   \<and> (calculate_cheque_similarity c1 c2 = Inr s
        \<and> calculate_cheque_similarity c1' c2' = Inr s'
        \<and> (pool_number_match c1 c2 \<longrightarrow> pool_number_match c1' c2')
        \<and> (pool_amount_match c1 c2 \<longrightarrow> pool_amount_match c1' c2')
        \<and> (pool_client_match c1 c2 \<longrightarrow> pool_client_match c1' c2')
        \<and> (pool_branch_match c1 c2 \<longrightarrow> pool_branch_match c1' c2')
        \<longrightarrow> s \<le> s')"
proof (intro conjI impI)
  show "0 \<le> calculate_similarity_score P row"
    unfolding calculate_similarity_score_weights using spec_pairwise_score_range by blast
  show "calculate_similarity_score P row \<le> 1"
    unfolding calculate_similarity_score_weights using spec_pairwise_score_range by blast
next
  assume "calculate_cheque_similarity c1 c2 = Inr s"
  then have "s = spec_pool_score (pool_number_match c1 c2) (pool_amount_match c1 c2)
                  (pool_client_match c1 c2) (pool_branch_match c1 c2)"
    unfolding calculate_cheque_similarity_weights by (simp split: if_split_asm)
  then show "0 \<le> s" "s \<le> 1" using spec_pool_score_range by simp_all
next
  assume "dict_amount c1 \<noteq> None \<and> dict_amount c2 \<noteq> None"
  then show "\<exists>v. calculate_cheque_similarity c1 c2 = Inr v"
    unfolding calculate_cheque_similarity_weights by simp
next
  assume "(dr_number1 row = dr_number2 row \<longrightarrow> dr_number1 row' = dr_number2 row')
        \<and> (dr_amount1 row = dr_amount2 row \<longrightarrow> dr_amount1 row' = dr_amount2 row')
        \<and> (dr_client1 row = dr_client2 row \<longrightarrow> dr_client1 row' = dr_client2 row')
        \<and> date_proximity (row_days_diff P row) \<le> date_proximity (row_days_diff P row')"
  then show "calculate_similarity_score P row \<le> calculate_similarity_score P row'"
    unfolding calculate_similarity_score_weights by (intro spec_pairwise_score_mono) simp_all
next
  assume a: "calculate_cheque_similarity c1 c2 = Inr s
        \<and> calculate_cheque_similarity c1' c2' = Inr s'
        \<and> (pool_number_match c1 c2 \<longrightarrow> pool_number_match c1' c2')
        \<and> (pool_amount_match c1 c2 \<longrightarrow> pool_amount_match c1' c2')
        \<and> (pool_client_match c1 c2 \<longrightarrow> pool_client_match c1' c2')
        \<and> (pool_branch_match c1 c2 \<longrightarrow> pool_branch_match c1' c2')"
  then have s: "s = spec_pool_score (pool_number_match c1 c2) (pool_amount_match c1 c2)
                  (pool_client_match c1 c2) (pool_branch_match c1 c2)"
    and s': "s' = spec_pool_score (pool_number_match c1' c2') (pool_amount_match c1' c2')
                  (pool_client_match c1' c2') (pool_branch_match c1' c2')"
    unfolding calculate_cheque_similarity_weights by (simp_all split: if_split_asm)
  from a show "s \<le> s'" unfolding s s' by (intro spec_pool_score_mono) simp_all
qed

theorem similarity_scores_bounded_and_monotone_witness:
  "calculate_cheque_similarity (match_dict ex_cheque_a) (match_dict ex_cheque_b) = Inr 0.15
   \<and> calculate_cheque_similarity (match_dict ex_cheque_a) (match_dict ex_cheque_c) = Inr 0.7
   \<and> (0.15::real) \<le> 0.7
   \<and> calculate_similarity_score (\<lambda>s. None) (dup_row_of (\<lambda>i. None) ex_cheque_a ex_cheque_b)
       \<le> calculate_similarity_score (\<lambda>s. None) (dup_row_of (\<lambda>i. None) ex_cheque_a ex_cheque_c)
   \<and> calculate_similarity_score (\<lambda>s. None) (dup_row_of (\<lambda>i. None) ex_cheque_a ex_cheque_c) \<le> 1"
proof -
  note t = similarity_scores_bounded_and_monotone [of "\<lambda>s. None"
      "dup_row_of (\<lambda>i. None) ex_cheque_a ex_cheque_b"
      "match_dict ex_cheque_a" "match_dict ex_cheque_b" "0.15"
      "dup_row_of (\<lambda>i. None) ex_cheque_a ex_cheque_c"
      "match_dict ex_cheque_a" "match_dict ex_cheque_c" "0.7"]
  have crit:
    "\<not> pool_number_match (match_dict ex_cheque_a) (match_dict ex_cheque_b)"
    "\<not> pool_amount_match (match_dict ex_cheque_a) (match_dict ex_cheque_b)"
    "pool_client_match (match_dict ex_cheque_a) (match_dict ex_cheque_c)"
    "\<not> pool_branch_match (match_dict ex_cheque_a) (match_dict ex_cheque_b)"
    by (simp_all add: pool_number_match_def pool_amount_match_def dict_amount_def
        pool_client_match_def pool_branch_match_def match_dict_def ex_cheque_defs
        dict_get_def dict_get_default_def)
  have rows:
    "dr_number1 (dup_row_of (\<lambda>i. None) ex_cheque_a ex_cheque_b)
       \<noteq> dr_number2 (dup_row_of (\<lambda>i. None) ex_cheque_a ex_cheque_b)"
    "dr_amount1 (dup_row_of (\<lambda>i. None) ex_cheque_a ex_cheque_b)
       \<noteq> dr_amount2 (dup_row_of (\<lambda>i. None) ex_cheque_a ex_cheque_b)"
    "dr_client1 (dup_row_of (\<lambda>i. None) ex_cheque_a ex_cheque_c)
       = dr_client2 (dup_row_of (\<lambda>i. None) ex_cheque_a ex_cheque_c)"
    "row_days_diff (\<lambda>s. None) (dup_row_of (\<lambda>i. None) ex_cheque_a ex_cheque_b) = None"
    "row_days_diff (\<lambda>s. None) (dup_row_of (\<lambda>i. None) ex_cheque_a ex_cheque_c) = None"
    by (simp_all add: row_days_diff_def dup_row_of_def ex_cheque_defs strptime_col_def)
  from t crit ex_pool_ab ex_pool_ac have pool: "(0.15::real) \<le> 0.7" by simp
  from t rows have pair:
    "calculate_similarity_score (\<lambda>s. None) (dup_row_of (\<lambda>i. None) ex_cheque_a ex_cheque_b)
       \<le> calculate_similarity_score (\<lambda>s. None) (dup_row_of (\<lambda>i. None) ex_cheque_a ex_cheque_c)"
    by simp
  from pool pair ex_pool_ab ex_pool_ac ex_pairwise_ac [of "\<lambda>s. None" "\<lambda>i. None"]
  show ?thesis by simp
qed

subsection \<open>C4: the two weighting schemes\<close>

text \<open>
  Claim C4.  \<open>SmartAutomation._calculate_cheque_similarity\<close> is the weighted sum number
  0.5, amount 0.3, client 0.15, branch 0.05 capped at 1 (and raises \<open>TypeError\<close> when an
  amount is \<open>None\<close>); \<open>AdvancedAnalytics._calculate_similarity_score\<close> is the weighted sum
  number 0.5, amount 0.3, client 0.2, date proximity 0.2 within one day else 0.1 within
  seven days, capped at 1; and there are two cheques on which the two scorers disagree.
  The amount criterion is \<open>|a1 - a2| < 0.01\<close> in the first and equality in the second.
\<close>

theorem similarity_schemes_differ:
  "calculate_cheque_similarity c1 c2 =
     (if dict_amount c1 = None \<or> dict_amount c2 = None then Inl TypeError
      else Inr (spec_pool_score (pool_number_match c1 c2) (pool_amount_match c1 c2)
                  (pool_client_match c1 c2) (pool_branch_match c1 c2)))
   \<and> calculate_similarity_score P row =
       spec_pairwise_score (dr_number1 row = dr_number2 row) (dr_amount1 row = dr_amount2 row)
         (dr_client1 row = dr_client2 row) (row_days_diff P row)
   \<and> (\<exists>x y. calculate_cheque_similarity (match_dict x) (match_dict y)
          \<noteq> Inr (calculate_similarity_score P (dup_row_of names x y)))"
proof (intro conjI)
  show "\<exists>x y. calculate_cheque_similarity (match_dict x) (match_dict y)
          \<noteq> Inr (calculate_similarity_score P (dup_row_of names x y))"
  proof (intro exI)
    show "calculate_cheque_similarity (match_dict ex_cheque_a) (match_dict ex_cheque_b)
          \<noteq> Inr (calculate_similarity_score P (dup_row_of names ex_cheque_a ex_cheque_b))"
      by (simp add: ex_pool_ab ex_pairwise_ab)
  qed
qed (rule calculate_cheque_similarity_weights calculate_similarity_score_weights)+

theorem similarity_schemes_differ_witness:
  "calculate_cheque_similarity (match_dict ex_cheque_a) (match_dict ex_cheque_b)
     = Inr (spec_pool_score False False True False)
   \<and> spec_pool_score False False True False = 0.15
   \<and> calculate_similarity_score (\<lambda>s. None) (dup_row_of (\<lambda>i. None) ex_cheque_a ex_cheque_b)
     = spec_pairwise_score False False True None
   \<and> spec_pairwise_score False False True None = 0.2"
proof -
  note t = similarity_schemes_differ [of "match_dict ex_cheque_a" "match_dict ex_cheque_b"
      "\<lambda>s. None" "dup_row_of (\<lambda>i. None) ex_cheque_a ex_cheque_b" "\<lambda>i. None"]
  have crit: "dict_amount (match_dict ex_cheque_a) = Some 1000"
    "dict_amount (match_dict ex_cheque_b) = Some 2500"
    "pool_number_match (match_dict ex_cheque_a) (match_dict ex_cheque_b) = False"
    "pool_amount_match (match_dict ex_cheque_a) (match_dict ex_cheque_b) = False"
    "pool_client_match (match_dict ex_cheque_a) (match_dict ex_cheque_b) = True"
    "pool_branch_match (match_dict ex_cheque_a) (match_dict ex_cheque_b) = False"
    by (simp_all add: dict_amount_def pool_number_match_def pool_amount_match_def
        pool_client_match_def pool_branch_match_def match_dict_def ex_cheque_defs
        dict_get_def dict_get_default_def)
  have row: "row_days_diff (\<lambda>s. None) (dup_row_of (\<lambda>i. None) ex_cheque_a ex_cheque_b) = None"
    "dr_number1 (dup_row_of (\<lambda>i. None) ex_cheque_a ex_cheque_b)
       \<noteq> dr_number2 (dup_row_of (\<lambda>i. None) ex_cheque_a ex_cheque_b)"
    "dr_amount1 (dup_row_of (\<lambda>i. None) ex_cheque_a ex_cheque_b)
       \<noteq> dr_amount2 (dup_row_of (\<lambda>i. None) ex_cheque_a ex_cheque_b)"
    "dr_client1 (dup_row_of (\<lambda>i. None) ex_cheque_a ex_cheque_b)
       = dr_client2 (dup_row_of (\<lambda>i. None) ex_cheque_a ex_cheque_b)"
    by (simp_all add: row_days_diff_def dup_row_of_def ex_cheque_defs strptime_col_def)
  have v: "spec_pool_score False False True False = 0.15"
    "spec_pairwise_score False False True None = 0.2"
    by (simp_all add: spec_pool_score_def spec_pairwise_score_def weight_def date_proximity_def)
  from t crit row v show ?thesis by simp
qed

subsection \<open>C3: the uniqueness constraint on cheque number and branch\<close>








subsection \<open>C6: the notification of a status change\<close>







subsection \<open>C5: which methods answer an exception with a default\<close>








lemma similarity_raises:
  "dict_amount c1 = None \<Longrightarrow> calculate_cheque_similarity c1 c2 = Inl TypeError"
  by (simp add: calculate_cheque_similarity_weights)

lemma duplicates_loop_raises:
  "dict_amount c1 = None \<Longrightarrow> ms \<noteq> [] \<Longrightarrow> duplicates_loop c1 ms = Inl TypeError"
  by (cases ms) (simp_all add: similarity_raises)







subsection \<open>C7: soft deletes change the active flag only\<close>

text \<open>
  Claim C7.  \<open>delete_bank\<close>, the confirmed \<open>delete_branch\<close> and \<open>delete_user\<close> of the
  settings pane (for a user other than the current one) and the soft delete of a client
  keep the number of rows of their table, set \<open>active\<close> to false in the rows with the
  given id, leave every other field and every other row as it was, and leave every other
  table, the cheques among them, unchanged.
\<close>

theorem soft_delete_changes_only_active:
  "(case delete_bank db bank_id of
      (db', found) \<Rightarrow>
        length (banks db') = length (banks db)
        \<and> (\<forall>k < length (banks db).
              bk_id (banks db' ! k) = bk_id (banks db ! k)
              \<and> bk_name (banks db' ! k) = bk_name (banks db ! k)
              \<and> bk_code (banks db' ! k) = bk_code (banks db ! k)
              \<and> bk_created_at (banks db' ! k) = bk_created_at (banks db ! k)
              \<and> bk_active (banks db' ! k)
                  = (bk_id (banks db ! k) \<noteq> bank_id \<and> bk_active (banks db ! k)))
        \<and> branches db' = branches db \<and> clients db' = clients db \<and> cheques db' = cheques db
        \<and> users db' = users db \<and> notifications db' = notifications db)
   \<and> (let db' = delete_branch db (Some branch_id) True
      in length (branches db') = length (branches db)
        \<and> (\<forall>k < length (branches db).
              branches db' ! k
                = (if br_id (branches db ! k) = branch_id
                   then (branches db ! k)\<lparr>br_active := False\<rparr> else branches db ! k))
        \<and> banks db' = banks db \<and> clients db' = clients db \<and> cheques db' = cheques db
        \<and> users db' = users db \<and> notifications db' = notifications db)
   \<and> (user_id \<noteq> current_user_id \<longrightarrow>
       (let db' = delete_user db current_user_id (Some user_id) True
        in length (users db') = length (users db)
          \<and> (\<forall>k < length (users db).
                users db' ! k
                  = (if us_id (users db ! k) = user_id
                     then (users db ! k)\<lparr>us_active := False\<rparr> else users db ! k))
          \<and> banks db' = banks db \<and> branches db' = branches db \<and> clients db' = clients db
          \<and> cheques db' = cheques db \<and> notifications db' = notifications db))
   \<and> (let db' = delete_client db client_id
      in length (clients db') = length (clients db)
        \<and> (\<forall>k < length (clients db).
              clients db' ! k
                = (if cl_id (clients db ! k) = client_id
                   then (clients db ! k)\<lparr>cl_active := False\<rparr> else clients db ! k))
        \<and> banks db' = banks db \<and> branches db' = branches db \<and> cheques db' = cheques db
        \<and> users db' = users db \<and> notifications db' = notifications db)"
  by (simp add: delete_bank_def delete_branch_def delete_user_def delete_client_def Let_def)

theorem soft_delete_changes_only_active_witness:
  "(2::int) \<noteq> 1
   \<and> fst (delete_bank ex_db_banks 2)
       = ex_db_banks \<lparr> banks := [ex_bank 1 ''BMCI'', (ex_bank 2 ''CIH'')\<lparr>bk_active := False\<rparr>] \<rparr>
   \<and> cheques (fst (delete_bank ex_db_banks 2)) = [ex_row_a1]
   \<and> cheques (delete_user ex_db_banks 1 (Some 2) True) = [ex_row_a1]"
proof -
  note t = soft_delete_changes_only_active [of ex_db_banks 2 0 2 1 0]
  have c: "cheques ex_db_banks = [ex_row_a1]"
    by (simp add: ex_db_banks_def ex_db_a1_def ex_db_empty_def)
  from t c have a: "cheques (fst (delete_bank ex_db_banks 2)) = [ex_row_a1]"
    by (simp add: case_prod_beta)
  from t c have b: "cheques (delete_user ex_db_banks 1 (Some 2) True) = [ex_row_a1]"
    by (simp add: Let_def)
  have d: "fst (delete_bank ex_db_banks 2)
       = ex_db_banks \<lparr> banks := [ex_bank 1 ''BMCI'', (ex_bank 2 ''CIH'')\<lparr>bk_active := False\<rparr>] \<rparr>"
    by (simp add: delete_bank_def ex_db_banks_def ex_bank_def)
  from a b d show ?thesis by simp
qed

subsection \<open>C8: the risk level is a four-bucket threshold on the score\<close>

lemma risk_profiles_loop_member:
  "risk_profiles_loop P now results = Inr ps \<Longrightarrow> p \<in> set ps \<Longrightarrow>
   \<exists>row \<in> set results. profile_of_row P now row = Inr p"
proof (induction results arbitrary: ps)
  case Nil
  then show ?case by simp
next
  case (Cons row results)
  then show ?case by (fastforce split: sum.splits)
qed

lemma profile_of_row_level:
  assumes "profile_of_row P now row = Inr p"
  shows "(crp_risk_level p = LOW) = (row_risk_score P now row < 40)
       \<and> (crp_risk_level p = MEDIUM) = (40 \<le> row_risk_score P now row \<and> row_risk_score P now row < 60)
       \<and> (crp_risk_level p = HIGH) = (60 \<le> row_risk_score P now row \<and> row_risk_score P now row < 80)
       \<and> (crp_risk_level p = CRITICAL) = (80 \<le> row_risk_score P now row)"
proof -
  from assms have "crp_risk_level p =
      (if row_risk_score P now row \<ge> 80 then CRITICAL
       else if row_risk_score P now row \<ge> 60 then HIGH
       else if row_risk_score P now row \<ge> 40 then MEDIUM
       else LOW)"
    unfolding profile_of_row_def Let_def
    by (auto split: sum.splits if_split_asm option.splits)
  then show ?thesis by auto
qed

text \<open>
  Claim C8.  Every profile returned by \<open>calculate_client_risk_profiles\<close> comes from a row
  of the query, and its risk level is the threshold function of the score \<open>s\<close> computed
  for that row: low when \<open>s < 40\<close>, medium when \<open>40 \<le> s < 60\<close>, high when
  \<open>60 \<le> s < 80\<close> and critical when \<open>s \<ge> 80\<close>.
\<close>

theorem risk_level_is_threshold_of_score:
  assumes "p \<in> set (calculate_client_risk_profiles P now query)"
  shows "\<exists>results row. query = Inr results \<and> row \<in> set results
       \<and> profile_of_row P now row = Inr p
       \<and> (crp_risk_level p = LOW) = (row_risk_score P now row < 40)
       \<and> (crp_risk_level p = MEDIUM) = (40 \<le> row_risk_score P now row \<and> row_risk_score P now row < 60)
       \<and> (crp_risk_level p = HIGH) = (60 \<le> row_risk_score P now row \<and> row_risk_score P now row < 80)
       \<and> (crp_risk_level p = CRITICAL) = (80 \<le> row_risk_score P now row)"
proof -
  from assms obtain results where q: "query = Inr results"
    by (cases query) (simp_all add: calculate_client_risk_profiles_def)
  with assms obtain ps where l: "risk_profiles_loop P now results = Inr ps"
    by (cases "risk_profiles_loop P now results")
      (simp_all add: calculate_client_risk_profiles_def)
  with assms q have m: "p \<in> set ps"
    by (simp add: calculate_client_risk_profiles_def)
  from risk_profiles_loop_member [OF l m] obtain row where
    r: "row \<in> set results" "profile_of_row P now row = Inr p" by blast
  from profile_of_row_level [OF r(2)] q r show ?thesis by blast
qed

lemma ex_risk_row_score: "row_risk_score (\<lambda>s. None) 0 ex_risk_row = 75"
  by (simp add: row_risk_score_def row_bounce_rate_def ex_risk_row_def calculate_risk_score_def truthy_str_def or_else_def)

lemma ex_profile_row: "profile_of_row (\<lambda>s. None) 0 ex_risk_row = Inr ex_profile"
  unfolding profile_of_row_def Let_def ex_risk_row_score
  by (simp add: ex_profile_def ex_risk_row_def row_bounce_rate_def truthy_str_def or_else_def py_round2_def)

theorem risk_level_is_threshold_of_score_witness:
  "ex_profile \<in> set (calculate_client_risk_profiles (\<lambda>s. None) 0 (Inr [ex_risk_row]))
   \<and> crp_risk_level ex_profile = HIGH
   \<and> 60 \<le> row_risk_score (\<lambda>s. None) 0 ex_risk_row
   \<and> row_risk_score (\<lambda>s. None) 0 ex_risk_row < 80"
proof -
  have m: "ex_profile \<in> set (calculate_client_risk_profiles (\<lambda>s. None) 0 (Inr [ex_risk_row]))"
    by (simp add: calculate_client_risk_profiles_def ex_profile_row)
  from risk_level_is_threshold_of_score [OF m]
  have "(crp_risk_level ex_profile = HIGH) = (60 \<le> row_risk_score (\<lambda>s. None) 0 ex_risk_row
          \<and> row_risk_score (\<lambda>s. None) 0 ex_risk_row < 80)"
    by auto
  moreover have "crp_risk_level ex_profile = HIGH" by (simp add: ex_profile_def)
  ultimately show ?thesis using m by simp
qed


subsection \<open>C9: the bank status mapping\<close>

lemma map_of_status_mapping_cases:
  "(if t \<in> set bank_side_statuses
    then \<exists>v. map_of status_mapping t = Some v \<and> v \<in> set cheque_status_enum
    else map_of status_mapping t = None)"
  by (simp add: status_mapping_def bank_side_statuses_def cheque_status_enum_def)

text \<open>
  Claim C9.  \<open>_map_bank_status_to_internal\<close> is defined on exactly the strings whose
  lower-case form is one of the six bank-side statuses cleared, bounced, returned, pending,
  processing, cancelled; on those it returns a member of the six-value status enum of the
  cheques table, and on every other string it returns \<open>None\<close>.
\<close>

theorem map_bank_status_domain:
  "(if str_lower s \<in> set bank_side_statuses
    then \<exists>v. map_bank_status_to_internal s = Some v \<and> v \<in> set cheque_status_enum
    else map_bank_status_to_internal s = None)"
  unfolding map_bank_status_to_internal_def by (rule map_of_status_mapping_cases)

theorem map_bank_status_domain_witness:
  "str_lower ''Bounced'' \<in> set bank_side_statuses
   \<and> map_bank_status_to_internal ''Bounced'' = Some ''rejete''
   \<and> str_lower ''lost'' \<notin> set bank_side_statuses
   \<and> map_bank_status_to_internal ''lost'' = None"
proof -
  have a: "str_lower ''Bounced'' \<in> set bank_side_statuses"
    unfolding bank_side_statuses_def by code_simp
  have b: "str_lower ''lost'' \<notin> set bank_side_statuses"
    unfolding bank_side_statuses_def by code_simp
  have c: "map_bank_status_to_internal ''Bounced'' = Some ''rejete''" by code_simp
  from map_bank_status_domain [of "''lost''"] b
  have d: "map_bank_status_to_internal ''lost'' = None" by simp
  from a b c d show ?thesis by simp
qed

subsection \<open>C10: roles of the users table without permissions\<close>

text \<open>
  Claim C10.  For every permission string, \<open>check_user_permissions\<close> answers \<open>False\<close>
  for the roles \<open>comptable\<close> and \<open>agent\<close>, because \<open>UserRole\<close> has no member with
  either value; hence every role the users table admits other than \<open>admin\<close> and
  \<open>readonly\<close> holds no permission.
\<close>

theorem unmapped_roles_hold_no_permission:
  "UserRole_of_value ''comptable'' = Inl ValueError
   \<and> UserRole_of_value ''agent'' = Inl ValueError
   \<and> check_user_permissions ''comptable'' p = Inr False
   \<and> check_user_permissions ''agent'' p = Inr False
   \<and> (\<forall>r \<in> set users_role_check.
         r \<noteq> ''admin'' \<and> r \<noteq> ''readonly'' \<longrightarrow> check_user_permissions r p = Inr False)"
  by (simp add: check_user_permissions_def UserRole_of_value_def users_role_check_def)

theorem unmapped_roles_hold_no_permission_witness:
  "''agent'' \<in> set users_role_check \<and> ''agent'' \<noteq> ''admin'' \<and> ''agent'' \<noteq> ''readonly''
   \<and> check_user_permissions ''agent'' ''cheque.read'' = Inr False
   \<and> check_user_permissions ''readonly'' ''cheque.read'' = Inr True"
proof -
  have m: "''agent'' \<in> set users_role_check" by (simp add: users_role_check_def)
  from unmapped_roles_hold_no_permission [of "''cheque.read''"] m
  have "check_user_permissions ''agent'' ''cheque.read'' = Inr False" by simp
  moreover have "check_user_permissions ''readonly'' ''cheque.read'' = Inr True"
    by (simp add: check_user_permissions_def UserRole_of_value_def)
  ultimately show ?thesis using m by simp
qed

end
